theory Spec2Isabelle
  imports
    Main
    "HOL-Library.Char_ord"
    "HOL-Library.List_Lexorder"
    "HOL-Library.Multiset"
begin

section \<open>Python strings and the \<open>os.path\<close> functions the script calls\<close>

text \<open>
  A Python \<open>str\<close> is modelled as a \<open>string\<close>, one \<open>char\<close> per character of the
  \<open>str\<close>; the order on \<open>string\<close> (\<open>Char_ord\<close>, \<open>List_Lexorder\<close>) is the lexicographic
  order by character value that Python uses to compare strings. The path functions are
  those of \<open>posixpath\<close> (separator \<open>/\<close>).
\<close>

text \<open>\<open>p.rfind(c)\<close>: the highest index of \<open>c\<close> in \<open>p\<close>, or \<open>-1\<close>.\<close>

fun rfind :: "string \<Rightarrow> char \<Rightarrow> int" where
  "rfind [] c = -1"
| "rfind (x # xs) c =
     (let r = rfind xs c in if 0 \<le> r then r + 1 else if x = c then 0 else -1)"

text \<open>\<open>s.endswith(suf)\<close>.\<close>

definition endswith :: "string \<Rightarrow> string \<Rightarrow> bool" where
  "endswith s suf = (length suf \<le> length s \<and> drop (length s - length suf) s = suf)"

text \<open>\<open>sub in s\<close> on strings: \<open>sub\<close> occurs in \<open>s\<close> as a contiguous substring.\<close>

fun str_in :: "string \<Rightarrow> string \<Rightarrow> bool" where
  "str_in sub [] = (sub = [])"
| "str_in sub (c # cs) = (take (length sub) (c # cs) = sub \<or> str_in sub cs)"

text \<open>
  \<open>posixpath.join(a, b)\<close>:
  \<^verbatim>\<open>
  if b.startswith('/'): path = b
  elif not path or path.endswith('/'): path += b
  else: path += '/' + b
  \<close>
\<close>

definition os_path_join :: "string \<Rightarrow> string \<Rightarrow> string" where
  "os_path_join a b =
     (if take 1 b = ''/'' then b
      else if a = [] \<or> endswith a ''/'' then a @ b
      else a @ ''/'' @ b)"

text \<open>\<open>posixpath.basename(p)\<close>: \<open>i = p.rfind('/') + 1; return p[i:]\<close>.\<close>

definition os_path_basename :: "string \<Rightarrow> string" where
  "os_path_basename p = drop (nat (rfind p CHR ''/'' + 1)) p"

text \<open>
  \<open>posixpath.splitext(p)\<close>, that is \<open>genericpath._splitext(p, '/', None, '.')\<close>:
  \<^verbatim>\<open>
  sepIndex = p.rfind(sep)
  dotIndex = p.rfind(extsep)
  if dotIndex > sepIndex:
      # skip all leading dots
      filenameIndex = sepIndex + 1
      while filenameIndex < dotIndex:
          if p[filenameIndex:filenameIndex+1] != extsep:
              return p[:dotIndex], p[dotIndex:]
          filenameIndex += 1
  return p, p[:0]
  \<close>
  \<open>splitext_loop\<close> is the \<open>while\<close> loop: it answers whether the loop leaves through its
  \<open>return\<close>.
\<close>

function splitext_loop :: "string \<Rightarrow> nat \<Rightarrow> nat \<Rightarrow> bool" where
  "splitext_loop p filenameIndex dotIndex =
     (if filenameIndex < dotIndex
      then (if take 1 (drop filenameIndex p) \<noteq> ''.'' then True
            else splitext_loop p (filenameIndex + 1) dotIndex)
      else False)"
  by pat_completeness auto
termination
  by (relation "measure (\<lambda>(p, i, d). d - i)") auto

declare splitext_loop.simps [simp del]

definition os_path_splitext :: "string \<Rightarrow> string \<times> string" where
  "os_path_splitext p =
     (let sepIndex = rfind p CHR ''/'';
          dotIndex = rfind p CHR ''.''
      in if dotIndex > sepIndex \<and> splitext_loop p (nat (sepIndex + 1)) (nat dotIndex)
         then (take (nat dotIndex) p, drop (nat dotIndex) p)
         else (p, []))"

section \<open>Configuration\<close>

definition NUMERO_DE_TRABAJADORES_GPU :: nat where
  "NUMERO_DE_TRABAJADORES_GPU = 2"

definition MODELO_WHISPER :: string where
  "MODELO_WHISPER = ''medium''"

definition IDIOMA_AUDIO :: string where
  "IDIOMA_AUDIO = ''es''"

text \<open>
  \<open>RUTA_BASE_SCRIPT\<close> is the directory of the script, known only at run time; the two
  folders are computed from it, so they take it as an argument.
\<close>

definition CARPETA_AUDIOS :: "string \<Rightarrow> string" where
  "CARPETA_AUDIOS RUTA_BASE_SCRIPT = os_path_join RUTA_BASE_SCRIPT ''audios''"

definition CARPETA_TRANSCRIPCIONES :: "string \<Rightarrow> string" where
  "CARPETA_TRANSCRIPCIONES RUTA_BASE_SCRIPT = os_path_join RUTA_BASE_SCRIPT ''transcripciones''"

section \<open>The world the script runs in\<close>

text \<open>
  The file system, as far as the script observes it: the directories, each with the names
  \<open>os.listdir\<close> reports for it (in the order of the operating system, which is
  arbitrary), and the regular files with their contents. The script lists one directory
  only, \<open>CARPETA_AUDIOS\<close>, and writes no entry into it.
\<close>

record filesystem =
  directorios :: "string \<rightharpoonup> string list"
  archivos :: "string \<rightharpoonup> string"

definition os_path_isdir :: "filesystem \<Rightarrow> string \<Rightarrow> bool" where
  "os_path_isdir fs p = (directorios fs p \<noteq> None)"

definition os_path_exists :: "filesystem \<Rightarrow> string \<Rightarrow> bool" where
  "os_path_exists fs p = (directorios fs p \<noteq> None \<or> archivos fs p \<noteq> None)"

text \<open>\<open>os.listdir(p)\<close>; the script calls it only after \<open>os.path.isdir(p)\<close> has held.\<close>

definition os_listdir :: "filesystem \<Rightarrow> string \<Rightarrow> string list" where
  "os_listdir fs p = (case directorios fs p of None \<Rightarrow> [] | Some nombres \<Rightarrow> nombres)"

text \<open>\<open>os.makedirs(p)\<close>; the script calls it only when \<open>os.path.exists(p)\<close> is false.\<close>

definition os_makedirs :: "filesystem \<Rightarrow> string \<Rightarrow> filesystem" where
  "os_makedirs fs p = fs\<lparr>directorios := (directorios fs)(p \<mapsto> [])\<rparr>"

text \<open>
  What a call can raise. \<open>Exception r\<close> is an instance of Python's class \<open>Exception\<close>,
  the ones \<open>except Exception\<close> handles; \<open>r\<close> is what \<open>str(e)\<close> does on it: it returns a
  text, or the \<open>__str__\<close> of the class raises in its turn. \<open>BaseException nombre\<close> is an
  instance of a class that derives from \<open>BaseException\<close> and not from \<open>Exception\<close>
  (\<open>KeyboardInterrupt\<close>, \<open>SystemExit\<close>, \<open>GeneratorExit\<close>), which \<open>except Exception\<close>
  lets through. A call that can raise has a result of type \<open>exception + 'a\<close>, where
  \<open>Inl e\<close> is leaving the call with \<open>e\<close> raised.
\<close>

datatype exception =
    Exception "exception + string"
  | BaseException string

text \<open>
  A loaded Whisper model is its \<open>transcribe\<close> method: from the path of the audio and
  the language to the value of \<open>resultado["text"]\<close>, or to the exception raised.
\<close>

type_synonym modelo = "string \<Rightarrow> string \<Rightarrow> exception + string"

text \<open>
  What the script does not decide: the directory of the script, whether CUDA is there,
  the model \<open>whisper.load_model\<close> returns, whether \<open>open(ruta, "w")\<close> raises, whether
  \<open>f.write(texto)\<close> (or closing the file) raises and what it has left in the file then, and
  the order in which the tasks of the pool finish.
\<close>

record entorno =
  RUTA_BASE_SCRIPT :: string
  cuda_is_available :: bool
  load_model :: "string \<Rightarrow> modelo"
  open_w :: "string \<Rightarrow> exception option"
  write_texto :: "string \<Rightarrow> string \<Rightarrow> (exception \<times> string) option"
  orden_de_finalizacion :: "nat list"

text \<open>
  The lines the parent process prints, one constructor for each \<open>print\<close> of the source,
  with the values it interpolates.
\<close>

datatype mensaje =
    Creando_carpeta_de_salida string
  | Buscando_archivos_pendientes
  | Se_encontraron nat
  | Error_CUDA_no_disponible
  | Error_sin_carpeta_de_audios string
  | No_hay_archivos_pendientes
  | Iniciando_pool nat
  | ERROR_Archivo_Causa string string
  | Linea_en_blanco_y_separador
  | Proceso_completado
  | Transcritos_con_exito nat
  | Fallos nat
  | Archivos_que_fallaron
  | Archivo_Error string string
  | Separador

record mundo =
  disco :: filesystem
  consola :: "mensaje list"

definition print :: "mensaje \<Rightarrow> mundo \<Rightarrow> mundo" where
  "print m w = w\<lparr>consola := consola w @ [m]\<rparr>"

text \<open>An Outcome is the triple \<open>(nombre_archivo, status, detail)\<close> the worker returns.\<close>

type_synonym resultado = "string \<times> string \<times> string"

text \<open>
  The status literal of a success in the source, five characters long: U+00C9 (capital E
  with acute accent) followed by \<open>XITO\<close>.
\<close>

definition EXITO :: string where
  "EXITO = CHR 0xC9 # ''XITO''"

section \<open>The functions of the script\<close>

text \<open>
  \<^verbatim>\<open>
  if not os.path.exists(CARPETA_TRANSCRIPCIONES):
      print(...)
      os.makedirs(CARPETA_TRANSCRIPCIONES)
  \<close>
\<close>

definition crear_carpetas_necesarias :: "entorno \<Rightarrow> mundo \<Rightarrow> mundo" where
  "crear_carpetas_necesarias ent w =
     (let carpeta = CARPETA_TRANSCRIPCIONES (RUTA_BASE_SCRIPT ent) in
      if \<not> os_path_exists (disco w) carpeta
      then (let w1 = print (Creando_carpeta_de_salida carpeta) w
            in w1\<lparr>disco := os_makedirs (disco w1) carpeta\<rparr>)
      else w)"

text \<open>
  \<open>inicializar_trabajador\<close> assigns the loaded model to the global \<open>modelo_global\<close> of the
  worker process, which is \<open>None\<close> before; the result is the new value of the global.
\<close>

definition inicializar_trabajador :: "entorno \<Rightarrow> modelo option" where
  "inicializar_trabajador ent = Some (load_model ent MODELO_WHISPER)"

text \<open>
  \<open>modelo_global.transcribe(ruta_audio, fp16=True, language=IDIOMA_AUDIO)\<close> followed by
  \<open>resultado["text"]\<close>. On \<open>None\<close> the attribute access raises \<open>AttributeError\<close>.
\<close>

definition modelo_global_transcribe :: "modelo option \<Rightarrow> string \<Rightarrow> string \<Rightarrow> exception + string" where
  "modelo_global_transcribe modelo_global ruta_audio language =
     (case modelo_global of
        None \<Rightarrow> Inl (Exception (Inr (CHR 0x27 # ''NoneType'' @ CHR 0x27 # '' object has no attribute ''
                                      @ CHR 0x27 # ''transcribe'' @ [CHR 0x27])))
      | Some m \<Rightarrow> m ruta_audio language)"

text \<open>
  \<^verbatim>\<open>
  with open(ruta, "w", encoding="utf-8") as f:
      f.write(texto)
  \<close>
  Opening for writing creates the file or empties it; a failure after that leaves a file
  behind. The result is the exception raised, if any, and the file system afterwards.
\<close>

definition with_open_w_write :: "entorno \<Rightarrow> filesystem \<Rightarrow> string \<Rightarrow> string \<Rightarrow> exception option \<times> filesystem" where
  "with_open_w_write ent fs ruta texto =
     (case open_w ent ruta of
        Some e \<Rightarrow> (Some e, fs)
      | None \<Rightarrow>
          (case write_texto ent ruta texto of
             Some (e, parcial) \<Rightarrow> (Some e, fs\<lparr>archivos := (archivos fs)(ruta \<mapsto> parcial)\<rparr>)
           | None \<Rightarrow> (None, fs\<lparr>archivos := (archivos fs)(ruta \<mapsto> texto)\<rparr>)))"

text \<open>The path \<open>procesar_archivo\<close> writes to (lines 53 and 54).\<close>

definition ruta_salida_txt_de_procesar :: "string \<Rightarrow> string \<Rightarrow> string" where
  "ruta_salida_txt_de_procesar base ruta_audio =
     (let nombre_archivo = os_path_basename ruta_audio
      in os_path_join (CARPETA_TRANSCRIPCIONES base)
           (fst (os_path_splitext nombre_archivo) @ ''.txt''))"

text \<open>
  \<^verbatim>\<open>
  nombre_archivo = os.path.basename(ruta_audio)
  ruta_salida_txt = os.path.join(CARPETA_TRANSCRIPCIONES, f"{os.path.splitext(nombre_archivo)[0]}.txt")
  try:
      resultado = modelo_global.transcribe(ruta_audio, fp16=True, language=IDIOMA_AUDIO)
      with open(ruta_salida_txt, "w", encoding="utf-8") as f:
          f.write(resultado["text"])
      return (nombre_archivo, "EXITO", "")
  except Exception as e:
      return (nombre_archivo, "FALLO", str(e))
  \<close>
  First the handler (lines 62 and 63), for a block that has raised \<open>e\<close>: the clause
  takes an instance of \<open>Exception\<close> and evaluates \<open>str(e)\<close>; when that raises, the new
  exception leaves the function; an exception the clause does not take leaves the
  function as it is.
\<close>

definition except_Exception_as_e :: "string \<Rightarrow> exception \<Rightarrow> exception + resultado" where
  "except_Exception_as_e nombre_archivo e =
     (case e of
        Exception r \<Rightarrow>
          (case r of
             Inr texto \<Rightarrow> Inr (nombre_archivo, ''FALLO'', texto)
           | Inl e' \<Rightarrow> Inl e')
      | BaseException nombre \<Rightarrow> Inl e)"

text \<open>
  The function: the \<open>try\<close> block, and the handler on whatever the block raises. The
  result is the Outcome returned or the exception that leaves the function, and the file
  system afterwards.
\<close>

definition procesar_archivo ::
  "entorno \<Rightarrow> modelo option \<Rightarrow> string \<Rightarrow> filesystem \<Rightarrow> (exception + resultado) \<times> filesystem" where
  "procesar_archivo ent modelo_global ruta_audio fs =
     (let nombre_archivo = os_path_basename ruta_audio;
          ruta_salida_txt = ruta_salida_txt_de_procesar (RUTA_BASE_SCRIPT ent) ruta_audio
      in case modelo_global_transcribe modelo_global ruta_audio IDIOMA_AUDIO of
           Inl e \<Rightarrow> (except_Exception_as_e nombre_archivo e, fs)
         | Inr texto \<Rightarrow>
             (case with_open_w_write ent fs ruta_salida_txt texto of
                (Some e, fs') \<Rightarrow> (except_Exception_as_e nombre_archivo e, fs')
              | (None, fs') \<Rightarrow> (Inr (nombre_archivo, EXITO, []), fs')))"

text \<open>The path \<open>encontrar_archivos_pendientes\<close> tests (line 74).\<close>

definition ruta_salida_txt_de_encontrar :: "string \<Rightarrow> string \<Rightarrow> string" where
  "ruta_salida_txt_de_encontrar base nombre_archivo =
     os_path_join (CARPETA_TRANSCRIPCIONES base)
       (fst (os_path_splitext nombre_archivo) @ ''.txt'')"

text \<open>
  The loop of \<open>encontrar_archivos_pendientes\<close>, over the sorted names, with the list it
  appends to:
  \<^verbatim>\<open>
  for nombre_archivo in sorted(os.listdir(CARPETA_AUDIOS)):
      if nombre_archivo.endswith(".opus"):
          ruta_salida_txt = ...
          if not os.path.exists(ruta_salida_txt):
              archivos_pendientes.append(os.path.join(CARPETA_AUDIOS, nombre_archivo))
  \<close>
\<close>

fun for_nombre_archivo :: "string \<Rightarrow> filesystem \<Rightarrow> string list \<Rightarrow> string list \<Rightarrow> string list" where
  "for_nombre_archivo base fs [] archivos_pendientes = archivos_pendientes"
| "for_nombre_archivo base fs (nombre_archivo # resto) archivos_pendientes =
     for_nombre_archivo base fs resto
       (if endswith nombre_archivo ''.opus''
        then (let ruta_salida_txt = ruta_salida_txt_de_encontrar base nombre_archivo
              in if \<not> os_path_exists fs ruta_salida_txt
                 then archivos_pendientes @ [os_path_join (CARPETA_AUDIOS base) nombre_archivo]
                 else archivos_pendientes)
        else archivos_pendientes)"

text \<open>The result \<open>None\<close> is Python's \<open>None\<close>; the function also returns the world it leaves.\<close>

definition encontrar_archivos_pendientes :: "entorno \<Rightarrow> mundo \<Rightarrow> string list option \<times> mundo" where
  "encontrar_archivos_pendientes ent w =
     (let base = RUTA_BASE_SCRIPT ent;
          w1 = print Buscando_archivos_pendientes w
      in if \<not> os_path_isdir (disco w1) (CARPETA_AUDIOS base) then (None, w1)
         else (let archivos_pendientes =
                     for_nombre_archivo base (disco w1)
                       (sort (os_listdir (disco w1) (CARPETA_AUDIOS base))) []
               in (Some archivos_pendientes,
                   print (Se_encontraron (length archivos_pendientes)) w1)))"

text \<open>
  \<open>pool.imap_unordered(procesar_archivo, archivos_a_procesar)\<close> hands every path of the
  list to a worker once and yields each result when its task finishes. The workers run
  side by side; here each call of \<open>procesar_archivo\<close> is one step on the shared file
  system, and the steps are taken in the order the tasks finish, which
  \<open>orden_de_finalizacion\<close> chooses: its head, modulo the number of tasks still running,
  is the position of the task that finishes next. A call that returns yields its Outcome
  to the loop. A call that raises yields none and the loop of \<open>main\<close> is not continued:
  the iterator raises in the parent the \<open>Exception\<close> it got from the worker, and a worker
  that another \<open>BaseException\<close> has ended delivers nothing for its task.
\<close>

definition siguiente :: "nat list \<Rightarrow> nat \<Rightarrow> nat" where
  "siguiente orden n = (case orden of [] \<Rightarrow> 0 | k # _ \<Rightarrow> k mod n)"

definition quitar :: "nat \<Rightarrow> 'a list \<Rightarrow> 'a list" where
  "quitar k xs = take k xs @ drop (Suc k) xs"

text \<open>
  The loop of \<open>main\<close> over the results, with the world, the list \<open>resultados\<close> and the
  count of the progress bar; the result is the state the loop leaves and the exception
  that ended it, if one did:
  \<^verbatim>\<open>
  for resultado in pool.imap_unordered(procesar_archivo, archivos_a_procesar):
      if "FALLO" in resultado[1]:
          print(f"\n[ERROR] Archivo: {resultado[0]} | Causa: {resultado[2][:100]}...")
      resultados.append(resultado)
      progress_bar.update(1)
  \<close>
\<close>

function for_resultado ::
  "entorno \<Rightarrow> modelo option \<Rightarrow> nat list \<Rightarrow> string list
     \<Rightarrow> mundo \<times> resultado list \<times> nat
     \<Rightarrow> (mundo \<times> resultado list \<times> nat) \<times> exception option" where
  "for_resultado ent modelo_global orden [] estado = (estado, None)"
| "for_resultado ent modelo_global orden (x # xs) (w, resultados, progress_bar) =
     (let k = siguiente orden (length (x # xs));
          paso = procesar_archivo ent modelo_global ((x # xs) ! k) (disco w);
          w1 = w\<lparr>disco := snd paso\<rparr>
      in case fst paso of
           Inl e \<Rightarrow> ((w1, resultados, progress_bar), Some e)
         | Inr resultado \<Rightarrow>
             (let w2 = (if str_in ''FALLO'' (fst (snd resultado))
                        then print (ERROR_Archivo_Causa (fst resultado)
                                      (take 100 (snd (snd resultado)))) w1
                        else w1)
              in for_resultado ent modelo_global (tl orden) (quitar k (x # xs))
                   (w2, resultados @ [resultado], progress_bar + 1)))"
  by pat_completeness auto
termination
  by (relation "measure (\<lambda>(ent, modelo_global, orden, pendientes, estado). length pendientes)")
     (auto simp: quitar_def siguiente_def split: list.splits)

text \<open>
  The final report:
  \<^verbatim>\<open>
  exitos = [r for r in resultados if r[1] == "EXITO"]
  fallos = [r for r in resultados if r[1] == "FALLO"]
  print("\n" + "="*50)
  print(...)
  print(f"... {len(exitos)}")
  print(f"... {len(fallos)}")
  if fallos:
      print("\n--- Archivos que fallaron ---")
      for ruta, _, error_msg in fallos:
          print(f"Archivo: {os.path.basename(ruta)} | Error: {error_msg[:100]}...")
  print("="*50)
  \<close>
\<close>

definition reporte_final :: "resultado list \<Rightarrow> mundo \<Rightarrow> mundo" where
  "reporte_final resultados w =
     (let exitos = filter (\<lambda>r. fst (snd r) = EXITO) resultados;
          fallos = filter (\<lambda>r. fst (snd r) = ''FALLO'') resultados;
          w1 = print Linea_en_blanco_y_separador w;
          w2 = print Proceso_completado w1;
          w3 = print (Transcritos_con_exito (length exitos)) w2;
          w4 = print (Fallos (length fallos)) w3;
          w5 = (if fallos \<noteq> []
                then fold (\<lambda>(ruta, _, error_msg).
                             print (Archivo_Error (os_path_basename ruta) (take 100 error_msg)))
                       fallos (print Archivos_que_fallaron w4)
                else w4)
      in print Separador w5)"

text \<open>
  What a run of \<open>main\<close> leaves: the world, whether \<open>multiprocessing.Pool\<close> was
  constructed, the list \<open>resultados\<close> (empty when \<open>main\<close> returns before the loop), and
  the exception that ended the loop over the pool, \<open>None\<close> when \<open>main\<close> returns. With an
  exception \<open>main\<close> does not return: \<open>mundo_final\<close> and \<open>resultados_recogidos\<close> are then
  the world and the list at the moment the loop ended, and the tasks still running are
  not followed further.
\<close>

record ejecucion =
  mundo_final :: mundo
  pool_creado :: bool
  resultados_recogidos :: "resultado list"
  excepcion :: "exception option"

text \<open>
  \<^verbatim>\<open>
  if not torch.cuda.is_available(): print(...); return
  crear_carpetas_necesarias()
  archivos_a_procesar = encontrar_archivos_pendientes()
  if archivos_a_procesar is None: print(...); return
  if not archivos_a_procesar: print(...); return
  print(...)
  with multiprocessing.Pool(processes=NUMERO_DE_TRABAJADORES_GPU,
                            initializer=inicializar_trabajador) as pool:
      resultados = []
      with tqdm(total=len(archivos_a_procesar), ...) as progress_bar:
          for resultado in pool.imap_unordered(...): ...
  # Reporte final
  \<close>
  When the loop is ended by an exception the report is not reached.
\<close>

definition main :: "entorno \<Rightarrow> mundo \<Rightarrow> ejecucion" where
  "main ent w =
     (if \<not> cuda_is_available ent
      then \<lparr>mundo_final = print Error_CUDA_no_disponible w, pool_creado = False,
            resultados_recogidos = [], excepcion = None\<rparr>
      else
        (let w1 = crear_carpetas_necesarias ent w;
             encontrado = encontrar_archivos_pendientes ent w1;
             w2 = snd encontrado
         in case fst encontrado of
              None \<Rightarrow>
                \<lparr>mundo_final =
                   print (Error_sin_carpeta_de_audios (CARPETA_AUDIOS (RUTA_BASE_SCRIPT ent))) w2,
                 pool_creado = False, resultados_recogidos = [], excepcion = None\<rparr>
            | Some archivos_a_procesar \<Rightarrow>
                if archivos_a_procesar = []
                then \<lparr>mundo_final = print No_hay_archivos_pendientes w2, pool_creado = False,
                      resultados_recogidos = [], excepcion = None\<rparr>
                else
                  (let w3 = print (Iniciando_pool NUMERO_DE_TRABAJADORES_GPU) w2;
                       modelo_global = inicializar_trabajador ent;
                       fin = for_resultado ent modelo_global (orden_de_finalizacion ent)
                               archivos_a_procesar (w3, [], 0);
                       estado = fst fin;
                       resultados = fst (snd estado)
                   in case snd fin of
                        Some e \<Rightarrow>
                          \<lparr>mundo_final = fst estado, pool_creado = True,
                           resultados_recogidos = resultados, excepcion = Some e\<rparr>
                      | None \<Rightarrow>
                          \<lparr>mundo_final = reporte_final resultados (fst estado),
                           pool_creado = True, resultados_recogidos = resultados,
                           excepcion = None\<rparr>)))"

text \<open>
  A name made of dots only (the empty name included): what \<open>splitext\<close> finds before the
  last dot of names such as \<open>.opus\<close> or \<open>..opus\<close>, which it leaves whole.
\<close>

definition solo_puntos :: "string \<Rightarrow> bool" where
  "solo_puntos r = (\<forall>c\<in>set r. c = CHR ''.'')"



section \<open>Example worlds\<close>

text \<open>
  An environment whose model transcribes every audio to \<open>hola\<close> and whose writes succeed,
  and three file systems under the script directory \<open>/b\<close>: one with two pending audios
  and one audio already transcribed, one with every audio transcribed, and one without
  the audio folder.
\<close>

definition ent_ejemplo :: entorno where
  "ent_ejemplo =
     \<lparr>RUTA_BASE_SCRIPT = ''/b'', cuda_is_available = True,
      load_model = (\<lambda>nombre ruta_audio language. Inr ''hola''),
      open_w = (\<lambda>ruta. None), write_texto = (\<lambda>ruta texto. None),
      orden_de_finalizacion = [1]\<rparr>"

definition fs_ejemplo :: filesystem where
  "fs_ejemplo =
     \<lparr>directorios = [''/b/audios'' \<mapsto> [''b.opus'', ''a.opus'', ''nota.txt'', ''c.opus''],
                     ''/b/transcripciones'' \<mapsto> [''c.txt'']],
      archivos = [''/b/transcripciones/c.txt'' \<mapsto> ''ya'']\<rparr>"

definition w_ejemplo :: mundo where
  "w_ejemplo = \<lparr>disco = fs_ejemplo, consola = []\<rparr>"

definition fs_hecho :: filesystem where
  "fs_hecho =
     \<lparr>directorios = [''/b/audios'' \<mapsto> [''c.opus'', ''nota.txt''],
                     ''/b/transcripciones'' \<mapsto> [''c.txt'']],
      archivos = [''/b/transcripciones/c.txt'' \<mapsto> ''ya'']\<rparr>"

definition w_hecho :: mundo where
  "w_hecho = \<lparr>disco = fs_hecho, consola = []\<rparr>"

definition fs_sin_audios :: filesystem where
  "fs_sin_audios = \<lparr>directorios = Map.empty, archivos = Map.empty\<rparr>"

definition w_sin_audios :: mundo where
  "w_sin_audios = \<lparr>disco = fs_sin_audios, consola = []\<rparr>"

text \<open>
  A model whose \<open>transcribe\<close> raises an exception with a text of 101 characters, the
  environment that loads it, an environment in which \<open>open\<close> raises, and one in which
  the write raises after the file has been created.
\<close>

definition modelo_corrupto :: modelo where
  "modelo_corrupto = (\<lambda>ruta_audio language. Inl (Exception (Inr (replicate 101 CHR ''x''))))"


definition ent_solo_lectura :: entorno where
  "ent_solo_lectura =
     ent_ejemplo\<lparr>open_w := (\<lambda>ruta. Some (Exception (Inr ''Permission denied'')))\<rparr>"

definition ent_disco_lleno :: entorno where
  "ent_disco_lleno =
     ent_ejemplo\<lparr>write_texto :=
        (\<lambda>ruta texto. Some (Exception (Inr ''No space left on device''), []))\<rparr>"

text \<open>
  A model whose \<open>transcribe\<close> is interrupted (\<open>KeyboardInterrupt\<close> is not an
  \<open>Exception\<close>), one that raises an \<open>Exception\<close> whose \<open>__str__\<close> raises a
  \<open>TypeError\<close>, and the environment that loads the latter.
\<close>

definition modelo_interrumpido :: modelo where
  "modelo_interrumpido = (\<lambda>ruta_audio language. Inl (BaseException ''KeyboardInterrupt''))"

definition modelo_sin_str :: modelo where
  "modelo_sin_str =
     (\<lambda>ruta_audio language.
        Inl (Exception (Inl (Exception (Inr ''__str__ returned non-string (type NoneType)'')))))"



text \<open>
  A file system whose audio folder holds the two names \<open>.opus\<close> and \<open>.opus.opus\<close>,
  with no transcription yet.
\<close>

definition fs_choque :: filesystem where
  "fs_choque =
     \<lparr>directorios = [''/b/audios'' \<mapsto> [''.opus.opus'', ''.opus''],
                     ''/b/transcripciones'' \<mapsto> []],
      archivos = Map.empty\<rparr>"

definition w_choque :: mundo where
  "w_choque = \<lparr>disco = fs_choque, consola = []\<rparr>"


section \<open>Facts about strings and paths\<close>

lemma endswith_iff: "endswith s suf \<longleftrightarrow> (\<exists>r. s = r @ suf)"
proof
  assume "endswith s suf"
  then have "s = take (length s - length suf) s @ suf"
    by (metis append_take_drop_id endswith_def)
  then show "\<exists>r. s = r @ suf" ..
next
  assume "\<exists>r. s = r @ suf"
  then show "endswith s suf" by (auto simp: endswith_def)
qed

lemma rfind_notin: "c \<notin> set p \<Longrightarrow> rfind p c = -1"
  by (induction p) (auto simp: Let_def)

lemma rfind_last: "c \<notin> set b \<Longrightarrow> rfind (a @ c # b) c = int (length a)"
  by (induction a) (auto simp: Let_def rfind_notin)

lemma os_path_join_eq_iff:
  "take 1 b \<noteq> ''/'' \<Longrightarrow> take 1 b' \<noteq> ''/'' \<Longrightarrow> os_path_join a b = os_path_join a b' \<longleftrightarrow> b = b'"
  by (auto simp: os_path_join_def)

lemma take1_noslash: "CHR ''/'' \<notin> set n \<Longrightarrow> take 1 n \<noteq> ''/''"
  by (cases n) auto

lemma os_path_basename_join:
  assumes "CHR ''/'' \<notin> set n"
  shows "os_path_basename (os_path_join a n) = n"
proof -
  have t: "take 1 n \<noteq> ''/''" using assms by (rule take1_noslash)
  have key: "os_path_basename (x @ CHR ''/'' # n) = n" for x
  proof -
    have "rfind (x @ CHR ''/'' # n) CHR ''/'' = int (length x)"
      using assms by (rule rfind_last)
    then have "os_path_basename (x @ CHR ''/'' # n) = drop (Suc (length x)) (x @ CHR ''/'' # n)"
      unfolding os_path_basename_def by (simp add: nat_add_distrib)
    then show ?thesis by simp
  qed
  show ?thesis
  proof (cases "a = [] \<or> endswith a ''/''")
    case True
    then show ?thesis
    proof
      assume "a = []"
      then show ?thesis using t assms by (simp add: os_path_join_def os_path_basename_def rfind_notin)
    next
      assume e: "endswith a ''/''"
      then obtain r where r: "a = r @ ''/''" unfolding endswith_iff by blast
      have "os_path_join a n = a @ n" using t e by (simp add: os_path_join_def)
      then have "os_path_join a n = r @ CHR ''/'' # n" using r by simp
      then show ?thesis by (simp only: key)
    qed
  next
    case False
    then have "os_path_join a n = a @ CHR ''/'' # n" using t by (simp add: os_path_join_def)
    then show ?thesis by (simp only: key)
  qed
qed

lemma splitext_loop_iff:
  "splitext_loop p i d \<longleftrightarrow> (\<exists>j. i \<le> j \<and> j < d \<and> take 1 (drop j p) \<noteq> ''.'')"
proof (induction p i d rule: splitext_loop.induct)
  case (1 p i d)
  show ?case
  proof (cases "i < d")
    case False
    then show ?thesis by (subst splitext_loop.simps) auto
  next
    case True
    show ?thesis
    proof (cases "take 1 (drop i p) \<noteq> ''.''")
      case True
      with \<open>i < d\<close> show ?thesis by (subst splitext_loop.simps) auto
    next
      case False
      then have "splitext_loop p i d = splitext_loop p (i + 1) d"
        using \<open>i < d\<close> by (subst splitext_loop.simps) simp
      also have "\<dots> \<longleftrightarrow> (\<exists>j. i + 1 \<le> j \<and> j < d \<and> take 1 (drop j p) \<noteq> ''.'')"
        using 1 \<open>i < d\<close> False by simp
      also have "\<dots> \<longleftrightarrow> (\<exists>j. i \<le> j \<and> j < d \<and> take 1 (drop j p) \<noteq> ''.'')"
      proof
        assume "\<exists>j. i + 1 \<le> j \<and> j < d \<and> take 1 (drop j p) \<noteq> ''.''"
        then obtain j where "i + 1 \<le> j" "j < d" "take 1 (drop j p) \<noteq> ''.''" by blast
        then have "i \<le> j \<and> j < d \<and> take 1 (drop j p) \<noteq> ''.''" by simp
        then show "\<exists>j. i \<le> j \<and> j < d \<and> take 1 (drop j p) \<noteq> ''.''" ..
      next
        assume "\<exists>j. i \<le> j \<and> j < d \<and> take 1 (drop j p) \<noteq> ''.''"
        then obtain j where j: "i \<le> j" "j < d" "take 1 (drop j p) \<noteq> ''.''" by blast
        with False have "j \<noteq> i" by auto
        with j have "i + 1 \<le> j \<and> j < d \<and> take 1 (drop j p) \<noteq> ''.''" by simp
        then show "\<exists>j. i + 1 \<le> j \<and> j < d \<and> take 1 (drop j p) \<noteq> ''.''" ..
      qed
      finally show ?thesis .
    qed
  qed
qed

lemma take1_drop_nth: 
  assumes "j < length r" shows "take 1 (drop j (r @ s)) = [r ! j]"
proof -
  have "drop j r = r ! j # drop (Suc j) r" using assms by (rule Cons_nth_drop_Suc[symmetric])
  then show ?thesis using assms by simp
qed

lemma splitext_loop_prefix:
  "splitext_loop (r @ s) 0 (length r) \<longleftrightarrow> \<not> solo_puntos r"
proof
  assume "splitext_loop (r @ s) 0 (length r)"
  then obtain j where j: "j < length r" "take 1 (drop j (r @ s)) \<noteq> ''.''"
    unfolding splitext_loop_iff by blast
  then have "r ! j \<noteq> CHR ''.''" by (simp only: take1_drop_nth) simp
  moreover have "r ! j \<in> set r" using j(1) by (rule nth_mem)
  ultimately show "\<not> solo_puntos r" unfolding solo_puntos_def by blast
next
  assume "\<not> solo_puntos r"
  then obtain c where "c \<in> set r" "c \<noteq> CHR ''.''" unfolding solo_puntos_def by blast
  then obtain j where j: "j < length r" "r ! j \<noteq> CHR ''.''" unfolding in_set_conv_nth by blast
  then have "take 1 (drop j (r @ s)) \<noteq> ''.''" by (simp only: take1_drop_nth) simp
  with j(1) have "0 \<le> j \<and> j < length r \<and> take 1 (drop j (r @ s)) \<noteq> ''.''" by simp
  then show "splitext_loop (r @ s) 0 (length r)" unfolding splitext_loop_iff ..
qed

lemma splitext_opus:
  assumes "CHR ''/'' \<notin> set r"
  shows "fst (os_path_splitext (r @ ''.opus'')) = (if solo_puntos r then r @ ''.opus'' else r)"
proof -
  have s: "rfind (r @ ''.opus'') CHR ''/'' = -1" using assms by (simp add: rfind_notin)
  have "CHR ''.'' \<notin> set ''opus''" by simp
  then have "rfind (r @ CHR ''.'' # ''opus'') CHR ''.'' = int (length r)" by (rule rfind_last)
  then have d: "rfind (r @ ''.opus'') CHR ''.'' = int (length r)" by simp
  have l: "splitext_loop (r @ ''.opus'') 0 (length r) \<longleftrightarrow> \<not> solo_puntos r"
    by (rule splitext_loop_prefix)
  have "os_path_splitext (r @ ''.opus'') =
        (if splitext_loop (r @ ''.opus'') 0 (length r)
         then (take (length r) (r @ ''.opus''), drop (length r) (r @ ''.opus''))
         else (r @ ''.opus'', []))"
    unfolding os_path_splitext_def Let_def s d by simp
  then show ?thesis unfolding l by simp
qed

section \<open>The functions on the file system\<close>

lemma carpetas_distintas: "CARPETA_AUDIOS base \<noteq> CARPETA_TRANSCRIPCIONES base"
proof -
  have "take 1 ''audios'' \<noteq> ''/''" "take 1 ''transcripciones'' \<noteq> ''/''" by simp_all
  then have "os_path_join base ''audios'' = os_path_join base ''transcripciones'' \<longleftrightarrow> ''audios'' = ''transcripciones''"
    by (rule os_path_join_eq_iff)
  then show ?thesis unfolding CARPETA_AUDIOS_def CARPETA_TRANSCRIPCIONES_def by simp
qed

lemma for_nombre_archivo_filter:
  "for_nombre_archivo base fs xs acc =
     acc @ map (os_path_join (CARPETA_AUDIOS base))
             (filter (\<lambda>n. endswith n ''.opus'' \<and> \<not> os_path_exists fs (ruta_salida_txt_de_encontrar base n)) xs)"
  by (induction xs arbitrary: acc) (simp_all add: Let_def)

lemma disco_print [simp]: "disco (print m w) = disco w"
  by (simp add: print_def)

lemma consola_print [simp]: "consola (print m w) = consola w @ [m]"
  by (simp add: print_def)

lemma encontrar_None: 
  "\<not> os_path_isdir (disco w) (CARPETA_AUDIOS (RUTA_BASE_SCRIPT ent)) \<Longrightarrow>
   encontrar_archivos_pendientes ent w = (None, print Buscando_archivos_pendientes w)"
  by (simp add: encontrar_archivos_pendientes_def Let_def)

lemma encontrar_Some:
  assumes "directorios (disco w) (CARPETA_AUDIOS (RUTA_BASE_SCRIPT ent)) = Some I"
  shows "fst (encontrar_archivos_pendientes ent w) =
           Some (map (os_path_join (CARPETA_AUDIOS (RUTA_BASE_SCRIPT ent)))
             (filter (\<lambda>n. endswith n ''.opus'' \<and>
                  \<not> os_path_exists (disco w) (ruta_salida_txt_de_encontrar (RUTA_BASE_SCRIPT ent) n)) (sort I)))"
    and "disco (snd (encontrar_archivos_pendientes ent w)) = disco w"
  using assms
  by (simp_all add: encontrar_archivos_pendientes_def Let_def os_path_isdir_def os_listdir_def
        for_nombre_archivo_filter)

lemma audios_ejemplo: "CARPETA_AUDIOS ''/b'' = ''/b/audios''"
  by (simp add: CARPETA_AUDIOS_def os_path_join_def endswith_def)

lemma transcripciones_ejemplo: "CARPETA_TRANSCRIPCIONES ''/b'' = ''/b/transcripciones''"
  by (simp add: CARPETA_TRANSCRIPCIONES_def os_path_join_def endswith_def)

lemma h_ejemplo: 
  "directorios (disco w_ejemplo) (CARPETA_AUDIOS (RUTA_BASE_SCRIPT ent_ejemplo)) =
     Some [''b.opus'', ''a.opus'', ''nota.txt'', ''c.opus'']"
  by (simp add: w_ejemplo_def fs_ejemplo_def ent_ejemplo_def audios_ejemplo)

lemma splitext_ejemplos:
  "os_path_splitext ''a.opus'' = (''a'', ''.opus'')"
  "os_path_splitext ''b.opus'' = (''b'', ''.opus'')"
  "os_path_splitext ''c.opus'' = (''c'', ''.opus'')"
  by (simp_all add: os_path_splitext_def splitext_loop.simps)

lemma encontrar_ejemplo:
  "fst (encontrar_archivos_pendientes ent_ejemplo w_ejemplo) = Some [''/b/audios/a.opus'', ''/b/audios/b.opus'']"
  by (subst encontrar_Some(1)[OF h_ejemplo])
     (simp add: ent_ejemplo_def w_ejemplo_def fs_ejemplo_def
       audios_ejemplo transcripciones_ejemplo ruta_salida_txt_de_encontrar_def splitext_ejemplos
       endswith_def os_path_exists_def os_path_join_def)


lemma crear_directorios_audios:
  "directorios (disco (crear_carpetas_necesarias ent w)) (CARPETA_AUDIOS (RUTA_BASE_SCRIPT ent)) =
   directorios (disco w) (CARPETA_AUDIOS (RUTA_BASE_SCRIPT ent))"
  using carpetas_distintas[of "RUTA_BASE_SCRIPT ent"]
  by (simp add: crear_carpetas_necesarias_def Let_def os_makedirs_def)

lemma crear_archivos:
  "archivos (disco (crear_carpetas_necesarias ent w)) = archivos (disco w)"
  by (simp add: crear_carpetas_necesarias_def Let_def os_makedirs_def)

lemma crear_exists:
  "os_path_exists (disco w) p \<Longrightarrow> os_path_exists (disco (crear_carpetas_necesarias ent w)) p"
  by (simp add: crear_carpetas_necesarias_def Let_def os_makedirs_def os_path_exists_def)

lemma crear_isdir_audios:
  "os_path_isdir (disco (crear_carpetas_necesarias ent w)) (CARPETA_AUDIOS (RUTA_BASE_SCRIPT ent)) =
   os_path_isdir (disco w) (CARPETA_AUDIOS (RUTA_BASE_SCRIPT ent))"
  by (simp add: os_path_isdir_def crear_directorios_audios)

lemma main_sin_cuda:
  "\<not> cuda_is_available ent \<Longrightarrow>
   main ent w = \<lparr>mundo_final = print Error_CUDA_no_disponible w, pool_creado = False,
                 resultados_recogidos = [], excepcion = None\<rparr>"
  by (simp add: main_def)

lemma main_sin_carpeta:
  assumes "cuda_is_available ent"
    and "\<not> os_path_isdir (disco w) (CARPETA_AUDIOS (RUTA_BASE_SCRIPT ent))"
  shows "main ent w =
     \<lparr>mundo_final = print (Error_sin_carpeta_de_audios (CARPETA_AUDIOS (RUTA_BASE_SCRIPT ent)))
                      (print Buscando_archivos_pendientes (crear_carpetas_necesarias ent w)),
      pool_creado = False, resultados_recogidos = [], excepcion = None\<rparr>"
proof -
  have "\<not> os_path_isdir (disco (crear_carpetas_necesarias ent w)) (CARPETA_AUDIOS (RUTA_BASE_SCRIPT ent))"
    using assms(2) by (simp add: crear_isdir_audios)
  then have "encontrar_archivos_pendientes ent (crear_carpetas_necesarias ent w) =
      (None, print Buscando_archivos_pendientes (crear_carpetas_necesarias ent w))"
    by (rule encontrar_None)
  then show ?thesis using assms(1) by (simp add: main_def Let_def)
qed

lemma main_nada_pendiente:
  assumes "cuda_is_available ent"
    and "fst (encontrar_archivos_pendientes ent (crear_carpetas_necesarias ent w)) = Some []"
  shows "main ent w =
     \<lparr>mundo_final = print No_hay_archivos_pendientes
                      (snd (encontrar_archivos_pendientes ent (crear_carpetas_necesarias ent w))),
      pool_creado = False, resultados_recogidos = [], excepcion = None\<rparr>"
  using assms by (simp add: main_def Let_def)

lemma disco_w_sin_audios: "\<not> os_path_isdir (disco w_sin_audios) (CARPETA_AUDIOS (RUTA_BASE_SCRIPT ent_ejemplo))"
  by (simp add: w_sin_audios_def fs_sin_audios_def os_path_isdir_def)

lemma h_hecho:
  "directorios (disco w_hecho) (CARPETA_AUDIOS (RUTA_BASE_SCRIPT ent_ejemplo)) = Some [''c.opus'', ''nota.txt'']"
  by (simp add: w_hecho_def fs_hecho_def ent_ejemplo_def audios_ejemplo)

lemma h_hecho_salidas:
  "\<forall>n\<in>set [''c.opus'', ''nota.txt'']. endswith n ''.opus'' \<longrightarrow>
      os_path_exists (disco w_hecho) (ruta_salida_txt_de_encontrar (RUTA_BASE_SCRIPT ent_ejemplo) n)"
  by (simp add: w_hecho_def fs_hecho_def ent_ejemplo_def ruta_salida_txt_de_encontrar_def
        transcripciones_ejemplo splitext_ejemplos endswith_def os_path_exists_def os_path_join_def)

lemma isdir_hecho: "os_path_isdir (disco w_hecho) (CARPETA_AUDIOS (RUTA_BASE_SCRIPT ent_ejemplo))"
  by (simp add: os_path_isdir_def h_hecho)

lemma listdir_hecho: "os_listdir (disco w_hecho) (CARPETA_AUDIOS (RUTA_BASE_SCRIPT ent_ejemplo)) = [''c.opus'', ''nota.txt'']"
  by (simp add: os_listdir_def h_hecho)

lemma cuda_ejemplo: "cuda_is_available ent_ejemplo"
  by (simp add: ent_ejemplo_def)

lemma salida_c_hecho:
  "os_path_exists (disco w_hecho) (ruta_salida_txt_de_encontrar (RUTA_BASE_SCRIPT ent_ejemplo) ''c.opus'')"
  by (simp add: w_hecho_def fs_hecho_def ent_ejemplo_def ruta_salida_txt_de_encontrar_def
        transcripciones_ejemplo splitext_ejemplos endswith_def os_path_exists_def os_path_join_def)

lemma nota_no_opus: "\<not> endswith ''nota.txt'' ''.opus''"
  by (simp add: endswith_def)

section \<open>Discovery\<close>

text \<open>
  C1. When the audio folder is a directory with entries \<open>I\<close>,
  \<open>encontrar_archivos_pendientes\<close> returns the paths, in the audio folder, of exactly the
  entries of \<open>I\<close> whose name ends in \<open>.opus\<close> and whose output path does not exist, each as
  often as \<open>os.listdir\<close> reports it, sorted by name; and it leaves the file system as it
  found it.
\<close>

theorem encontrar_archivos_pendientes_exact:
  assumes "directorios (disco w) (CARPETA_AUDIOS (RUTA_BASE_SCRIPT ent)) = Some I"
  shows "\<exists>ns. fst (encontrar_archivos_pendientes ent w) =
                 Some (map (os_path_join (CARPETA_AUDIOS (RUTA_BASE_SCRIPT ent))) ns)
           \<and> sorted ns
           \<and> mset ns = filter_mset (\<lambda>n. endswith n ''.opus'' \<and>
                  \<not> os_path_exists (disco w) (ruta_salida_txt_de_encontrar (RUTA_BASE_SCRIPT ent) n)) (mset I)
           \<and> disco (snd (encontrar_archivos_pendientes ent w)) = disco w"
proof -
  let ?P = "\<lambda>n. endswith n ''.opus'' \<and>
                  \<not> os_path_exists (disco w) (ruta_salida_txt_de_encontrar (RUTA_BASE_SCRIPT ent) n)"
  let ?ns = "filter ?P (sort I)"
  have "sorted ?ns" using sorted_filter[of "\<lambda>x. x" "sort I" ?P] by simp
  moreover have "mset ?ns = filter_mset ?P (mset I)" by simp
  ultimately show ?thesis using encontrar_Some[OF assms] by blast
qed

theorem encontrar_archivos_pendientes_exact_witness:
  "directorios (disco w_ejemplo) (CARPETA_AUDIOS (RUTA_BASE_SCRIPT ent_ejemplo)) =
     Some [''b.opus'', ''a.opus'', ''nota.txt'', ''c.opus'']
   \<and> (\<exists>ns. fst (encontrar_archivos_pendientes ent_ejemplo w_ejemplo) =
                 Some (map (os_path_join (CARPETA_AUDIOS (RUTA_BASE_SCRIPT ent_ejemplo))) ns)
           \<and> sorted ns
           \<and> mset ns = filter_mset (\<lambda>n. endswith n ''.opus'' \<and>
                  \<not> os_path_exists (disco w_ejemplo)
                       (ruta_salida_txt_de_encontrar (RUTA_BASE_SCRIPT ent_ejemplo) n))
                 (mset [''b.opus'', ''a.opus'', ''nota.txt'', ''c.opus''])
           \<and> disco (snd (encontrar_archivos_pendientes ent_ejemplo w_ejemplo)) = disco w_ejemplo)"
  using encontrar_archivos_pendientes_exact[OF h_ejemplo] h_ejemplo by simp

text \<open>
  C4. \<open>encontrar_archivos_pendientes\<close> returns \<open>None\<close> exactly when the audio folder is
  not a directory. When it is a directory and no entry is eligible (none ends in \<open>.opus\<close>
  with its output missing), the result is the empty list, which is a different value.
  In \<open>main\<close>, with CUDA available, the result \<open>None\<close> ends the run: the error line is
  printed, no pool is constructed and nothing is collected.
\<close>

theorem encontrar_None_sii_sin_carpeta:
  "(fst (encontrar_archivos_pendientes ent w) = None
      \<longleftrightarrow> \<not> os_path_isdir (disco w) (CARPETA_AUDIOS (RUTA_BASE_SCRIPT ent)))
   \<and> (os_path_isdir (disco w) (CARPETA_AUDIOS (RUTA_BASE_SCRIPT ent))
        \<and> (\<forall>n\<in>set (os_listdir (disco w) (CARPETA_AUDIOS (RUTA_BASE_SCRIPT ent))).
               \<not> (endswith n ''.opus'' \<and>
                  \<not> os_path_exists (disco w) (ruta_salida_txt_de_encontrar (RUTA_BASE_SCRIPT ent) n)))
      \<longrightarrow> fst (encontrar_archivos_pendientes ent w) = Some [])
   \<and> (None :: string list option) \<noteq> Some []
   \<and> (cuda_is_available ent
        \<and> fst (encontrar_archivos_pendientes ent (crear_carpetas_necesarias ent w)) = None
      \<longrightarrow> main ent w =
           \<lparr>mundo_final =
              print (Error_sin_carpeta_de_audios (CARPETA_AUDIOS (RUTA_BASE_SCRIPT ent)))
                (snd (encontrar_archivos_pendientes ent (crear_carpetas_necesarias ent w))),
            pool_creado = False, resultados_recogidos = [], excepcion = None\<rparr>)"
proof -
  have m: "cuda_is_available ent
        \<and> fst (encontrar_archivos_pendientes ent (crear_carpetas_necesarias ent w)) = None
      \<longrightarrow> main ent w =
           \<lparr>mundo_final =
              print (Error_sin_carpeta_de_audios (CARPETA_AUDIOS (RUTA_BASE_SCRIPT ent)))
                (snd (encontrar_archivos_pendientes ent (crear_carpetas_necesarias ent w))),
            pool_creado = False, resultados_recogidos = [], excepcion = None\<rparr>"
    by (simp add: main_def Let_def)
  show ?thesis
  proof (cases "directorios (disco w) (CARPETA_AUDIOS (RUTA_BASE_SCRIPT ent))")
    case None
    then have "\<not> os_path_isdir (disco w) (CARPETA_AUDIOS (RUTA_BASE_SCRIPT ent))"
      by (simp add: os_path_isdir_def)
    then show ?thesis using m by (simp add: encontrar_None)
  next
    case (Some I)
    then have d: "os_path_isdir (disco w) (CARPETA_AUDIOS (RUTA_BASE_SCRIPT ent))"
      and l: "os_listdir (disco w) (CARPETA_AUDIOS (RUTA_BASE_SCRIPT ent)) = I"
      by (simp_all add: os_path_isdir_def os_listdir_def)
    have "fst (encontrar_archivos_pendientes ent w) \<noteq> None"
      unfolding encontrar_Some(1)[OF Some] by simp
    moreover have "(\<forall>n\<in>set I.
               \<not> (endswith n ''.opus'' \<and>
                  \<not> os_path_exists (disco w) (ruta_salida_txt_de_encontrar (RUTA_BASE_SCRIPT ent) n)))
      \<longrightarrow> fst (encontrar_archivos_pendientes ent w) = Some []"
      unfolding encontrar_Some(1)[OF Some] by (auto simp: filter_empty_conv)
    ultimately show ?thesis using m d unfolding l by blast
  qed
qed

theorem encontrar_None_sii_sin_carpeta_witness:
  "\<not> os_path_isdir (disco w_sin_audios) (CARPETA_AUDIOS (RUTA_BASE_SCRIPT ent_ejemplo))
   \<and> fst (encontrar_archivos_pendientes ent_ejemplo w_sin_audios) = None
   \<and> os_path_isdir (disco w_hecho) (CARPETA_AUDIOS (RUTA_BASE_SCRIPT ent_ejemplo))
   \<and> os_listdir (disco w_hecho) (CARPETA_AUDIOS (RUTA_BASE_SCRIPT ent_ejemplo))
         = [''c.opus'', ''nota.txt'']
   \<and> os_path_exists (disco w_hecho)
         (ruta_salida_txt_de_encontrar (RUTA_BASE_SCRIPT ent_ejemplo) ''c.opus'')
   \<and> \<not> endswith ''nota.txt'' ''.opus''
   \<and> fst (encontrar_archivos_pendientes ent_ejemplo w_hecho) = Some []
   \<and> cuda_is_available ent_ejemplo
   \<and> fst (encontrar_archivos_pendientes ent_ejemplo
             (crear_carpetas_necesarias ent_ejemplo w_sin_audios)) = None
   \<and> \<not> pool_creado (main ent_ejemplo w_sin_audios)"
proof -
  have a: "\<forall>n\<in>set (os_listdir (disco w_hecho) (CARPETA_AUDIOS (RUTA_BASE_SCRIPT ent_ejemplo))).
               \<not> (endswith n ''.opus'' \<and>
                  \<not> os_path_exists (disco w_hecho)
                       (ruta_salida_txt_de_encontrar (RUTA_BASE_SCRIPT ent_ejemplo) n))"
    unfolding listdir_hecho using h_hecho_salidas by blast
  have b: "\<not> os_path_isdir (disco (crear_carpetas_necesarias ent_ejemplo w_sin_audios))
             (CARPETA_AUDIOS (RUTA_BASE_SCRIPT ent_ejemplo))"
    using disco_w_sin_audios by (simp add: crear_isdir_audios)
  have c: "fst (encontrar_archivos_pendientes ent_ejemplo
             (crear_carpetas_necesarias ent_ejemplo w_sin_audios)) = None"
    using encontrar_None_sii_sin_carpeta[of ent_ejemplo "crear_carpetas_necesarias ent_ejemplo w_sin_audios"] b
    by blast
  have d: "\<not> pool_creado (main ent_ejemplo w_sin_audios)"
    using encontrar_None_sii_sin_carpeta[of ent_ejemplo w_sin_audios] c cuda_ejemplo by simp
  show ?thesis
    using encontrar_None_sii_sin_carpeta[of ent_ejemplo w_sin_audios]
      encontrar_None_sii_sin_carpeta[of ent_ejemplo w_hecho]
      disco_w_sin_audios isdir_hecho a c d cuda_ejemplo listdir_hecho salida_c_hecho nota_no_opus
    by blast
qed

text \<open>
  C7. When every entry of the audio folder that ends in \<open>.opus\<close> has its output path
  present, \<open>encontrar_archivos_pendientes\<close> returns the empty list and \<open>main\<close> returns
  without constructing the pool, collecting nothing and writing no file.
\<close>

theorem main_idempotente:
  assumes "directorios (disco w) (CARPETA_AUDIOS (RUTA_BASE_SCRIPT ent)) = Some I"
    and "\<forall>n\<in>set I. endswith n ''.opus'' \<longrightarrow>
           os_path_exists (disco w) (ruta_salida_txt_de_encontrar (RUTA_BASE_SCRIPT ent) n)"
  shows "fst (encontrar_archivos_pendientes ent w) = Some []
       \<and> \<not> pool_creado (main ent w)
       \<and> resultados_recogidos (main ent w) = []
       \<and> archivos (disco (mundo_final (main ent w))) = archivos (disco w)"
proof -
  have a: "fst (encontrar_archivos_pendientes ent w) = Some []"
    unfolding encontrar_Some(1)[OF assms(1)] using assms(2) by (auto simp: filter_empty_conv)
  let ?w1 = "crear_carpetas_necesarias ent w"
  have d1: "directorios (disco ?w1) (CARPETA_AUDIOS (RUTA_BASE_SCRIPT ent)) = Some I"
    using assms(1) by (simp add: crear_directorios_audios)
  have "\<forall>n\<in>set I. endswith n ''.opus'' \<longrightarrow>
           os_path_exists (disco ?w1) (ruta_salida_txt_de_encontrar (RUTA_BASE_SCRIPT ent) n)"
    using assms(2) crear_exists by blast
  then have b: "fst (encontrar_archivos_pendientes ent ?w1) = Some []"
    unfolding encontrar_Some(1)[OF d1] by (auto simp: filter_empty_conv)
  show ?thesis
  proof (cases "cuda_is_available ent")
    case True
    show ?thesis unfolding main_nada_pendiente[OF True b] using a
      by (simp add: encontrar_Some(2)[OF d1] crear_archivos)
  next
    case False
    show ?thesis unfolding main_sin_cuda[OF False] using a by simp
  qed
qed


theorem main_idempotente_witness:
  "directorios (disco w_hecho) (CARPETA_AUDIOS (RUTA_BASE_SCRIPT ent_ejemplo)) = Some [''c.opus'', ''nota.txt'']
   \<and> os_path_exists (disco w_hecho)
         (ruta_salida_txt_de_encontrar (RUTA_BASE_SCRIPT ent_ejemplo) ''c.opus'')
   \<and> \<not> endswith ''nota.txt'' ''.opus''
   \<and> fst (encontrar_archivos_pendientes ent_ejemplo w_hecho) = Some []
   \<and> \<not> pool_creado (main ent_ejemplo w_hecho)
   \<and> resultados_recogidos (main ent_ejemplo w_hecho) = []
   \<and> archivos (disco (mundo_final (main ent_ejemplo w_hecho))) = archivos (disco w_hecho)"
  using main_idempotente[OF h_hecho h_hecho_salidas] h_hecho salida_c_hecho nota_no_opus by blast

section \<open>The run without an audio folder\<close>

text \<open>
  C9. When the audio folder is not a directory, \<open>main\<close> constructs no pool, dispatches
  nothing and leaves the regular files of the file system, with their contents, as they
  were. (\<open>crear_carpetas_necesarias\<close> runs before the test, so the output directory may
  have been created: \<open>directorios\<close> can change, \<open>archivos\<close> cannot.)
\<close>

theorem main_sin_carpeta_no_escribe:
  assumes "\<not> os_path_isdir (disco w) (CARPETA_AUDIOS (RUTA_BASE_SCRIPT ent))"
  shows "archivos (disco (mundo_final (main ent w))) = archivos (disco w)
       \<and> \<not> pool_creado (main ent w)
       \<and> resultados_recogidos (main ent w) = []"
proof (cases "cuda_is_available ent")
  case True
  show ?thesis unfolding main_sin_carpeta[OF True assms] by (simp add: crear_archivos)
next
  case False
  show ?thesis unfolding main_sin_cuda[OF False] by simp
qed


theorem main_sin_carpeta_no_escribe_witness:
  "\<not> os_path_isdir (disco w_sin_audios) (CARPETA_AUDIOS (RUTA_BASE_SCRIPT ent_ejemplo))
   \<and> archivos (disco (mundo_final (main ent_ejemplo w_sin_audios))) = archivos (disco w_sin_audios)
   \<and> \<not> pool_creado (main ent_ejemplo w_sin_audios)
   \<and> resultados_recogidos (main ent_ejemplo w_sin_audios) = []"
  using main_sin_carpeta_no_escribe[OF disco_w_sin_audios] disco_w_sin_audios by simp

section \<open>The worker\<close>

text \<open>
  The handler, and the four ways through \<open>procesar_archivo\<close>: \<open>transcribe\<close> raises,
  \<open>open\<close> raises, the write raises, or all three succeed.
\<close>

lemma EXITO_no_FALLO: "EXITO \<noteq> ''FALLO''"
  by (simp add: EXITO_def)

lemma str_in_FALLO_EXITO: "\<not> str_in ''FALLO'' EXITO"
  by (simp add: EXITO_def)

lemma except_texto:
  "except_Exception_as_e nombre_archivo (Exception (Inr texto)) = Inr (nombre_archivo, ''FALLO'', texto)"
  by (simp add: except_Exception_as_e_def)

lemma except_str_raises:
  "except_Exception_as_e nombre_archivo (Exception (Inl e)) = Inl e"
  by (simp add: except_Exception_as_e_def)

lemma except_BaseException:
  "except_Exception_as_e nombre_archivo (BaseException clase) = Inl (BaseException clase)"
  by (simp add: except_Exception_as_e_def)

lemma except_Inr:
  assumes "except_Exception_as_e nombre_archivo e = Inr r"
  shows "\<exists>texto. e = Exception (Inr texto) \<and> r = (nombre_archivo, ''FALLO'', texto)"
proof (cases e)
  case (Exception s)
  show ?thesis
  proof (cases s)
    case (Inl e')
    with Exception assms show ?thesis by (simp add: except_str_raises)
  next
    case (Inr texto)
    with Exception assms show ?thesis by (auto simp: except_texto)
  qed
next
  case (BaseException clase)
  with assms show ?thesis by (simp add: except_BaseException)
qed

lemma procesar_raise_transcribe:
  "modelo_global_transcribe modelo_global ruta_audio IDIOMA_AUDIO = Inl e \<Longrightarrow>
   procesar_archivo ent modelo_global ruta_audio fs =
     (except_Exception_as_e (os_path_basename ruta_audio) e, fs)"
  by (simp add: procesar_archivo_def Let_def)

lemma procesar_raise_open:
  "modelo_global_transcribe modelo_global ruta_audio IDIOMA_AUDIO = Inr texto \<Longrightarrow>
   open_w ent (ruta_salida_txt_de_procesar (RUTA_BASE_SCRIPT ent) ruta_audio) = Some e \<Longrightarrow>
   procesar_archivo ent modelo_global ruta_audio fs =
     (except_Exception_as_e (os_path_basename ruta_audio) e, fs)"
  by (simp add: procesar_archivo_def Let_def with_open_w_write_def)

lemma procesar_raise_write:
  "modelo_global_transcribe modelo_global ruta_audio IDIOMA_AUDIO = Inr texto \<Longrightarrow>
   open_w ent (ruta_salida_txt_de_procesar (RUTA_BASE_SCRIPT ent) ruta_audio) = None \<Longrightarrow>
   write_texto ent (ruta_salida_txt_de_procesar (RUTA_BASE_SCRIPT ent) ruta_audio) texto = Some (e, parcial) \<Longrightarrow>
   procesar_archivo ent modelo_global ruta_audio fs =
     (except_Exception_as_e (os_path_basename ruta_audio) e,
      fs\<lparr>archivos := (archivos fs)(ruta_salida_txt_de_procesar (RUTA_BASE_SCRIPT ent) ruta_audio \<mapsto> parcial)\<rparr>)"
  by (simp add: procesar_archivo_def Let_def with_open_w_write_def)

lemma procesar_exito:
  "modelo_global_transcribe modelo_global ruta_audio IDIOMA_AUDIO = Inr texto \<Longrightarrow>
   open_w ent (ruta_salida_txt_de_procesar (RUTA_BASE_SCRIPT ent) ruta_audio) = None \<Longrightarrow>
   write_texto ent (ruta_salida_txt_de_procesar (RUTA_BASE_SCRIPT ent) ruta_audio) texto = None \<Longrightarrow>
   procesar_archivo ent modelo_global ruta_audio fs =
     (Inr (os_path_basename ruta_audio, EXITO, []),
      fs\<lparr>archivos := (archivos fs)(ruta_salida_txt_de_procesar (RUTA_BASE_SCRIPT ent) ruta_audio \<mapsto> texto)\<rparr>)"
  by (simp add: procesar_archivo_def Let_def with_open_w_write_def)

lemma procesar_casos:
  obtains (transcribe) e where "modelo_global_transcribe modelo_global ruta_audio IDIOMA_AUDIO = Inl e"
  | (abrir) texto e where "modelo_global_transcribe modelo_global ruta_audio IDIOMA_AUDIO = Inr texto"
      "open_w ent (ruta_salida_txt_de_procesar (RUTA_BASE_SCRIPT ent) ruta_audio) = Some e"
  | (escribir) texto e parcial where "modelo_global_transcribe modelo_global ruta_audio IDIOMA_AUDIO = Inr texto"
      "open_w ent (ruta_salida_txt_de_procesar (RUTA_BASE_SCRIPT ent) ruta_audio) = None"
      "write_texto ent (ruta_salida_txt_de_procesar (RUTA_BASE_SCRIPT ent) ruta_audio) texto = Some (e, parcial)"
  | (exito) texto where "modelo_global_transcribe modelo_global ruta_audio IDIOMA_AUDIO = Inr texto"
      "open_w ent (ruta_salida_txt_de_procesar (RUTA_BASE_SCRIPT ent) ruta_audio) = None"
      "write_texto ent (ruta_salida_txt_de_procesar (RUTA_BASE_SCRIPT ent) ruta_audio) texto = None"
proof (cases "modelo_global_transcribe modelo_global ruta_audio IDIOMA_AUDIO")
  case (Inl e)
  then show ?thesis by (rule transcribe)
next
  case (Inr texto)
  show ?thesis
  proof (cases "open_w ent (ruta_salida_txt_de_procesar (RUTA_BASE_SCRIPT ent) ruta_audio)")
    case None
    show ?thesis
    proof (cases "write_texto ent (ruta_salida_txt_de_procesar (RUTA_BASE_SCRIPT ent) ruta_audio) texto")
      case None
      with Inr \<open>open_w ent _ = None\<close> show ?thesis by (rule exito)
    next
      case (Some ep)
      then obtain e parcial where "ep = (e, parcial)" by (cases ep)
      with Inr \<open>open_w ent _ = None\<close> Some show ?thesis using escribir by blast
    qed
  next
    case (Some e)
    with Inr show ?thesis by (rule abrir)
  qed
qed


lemma procesar_Inr_estado:
  assumes "fst (procesar_archivo ent modelo_global ruta_audio fs) = Inr (nombre_archivo, status, detail)"
  shows "status = EXITO \<or> status = ''FALLO''"
proof (cases rule: procesar_casos[where modelo_global = modelo_global and ruta_audio = ruta_audio and ent = ent])
  case (transcribe e)
  then have "except_Exception_as_e (os_path_basename ruta_audio) e = Inr (nombre_archivo, status, detail)"
    using assms by (simp add: procesar_raise_transcribe)
  then show ?thesis using except_Inr by fastforce
next
  case (abrir texto e)
  then have "except_Exception_as_e (os_path_basename ruta_audio) e = Inr (nombre_archivo, status, detail)"
    using assms by (simp add: procesar_raise_open)
  then show ?thesis using except_Inr by fastforce
next
  case (escribir texto e parcial)
  then have "except_Exception_as_e (os_path_basename ruta_audio) e = Inr (nombre_archivo, status, detail)"
    using assms by (simp add: procesar_raise_write)
  then show ?thesis using except_Inr by fastforce
next
  case (exito texto)
  then show ?thesis using assms by (simp add: procesar_exito)
qed


lemma base_ejemplo: "RUTA_BASE_SCRIPT ent_ejemplo = ''/b''"
  by (simp add: ent_ejemplo_def)

lemma basename_a: "os_path_basename ''/b/audios/a.opus'' = ''a.opus''"
  by (simp add: os_path_basename_def)

lemma basename_b: "os_path_basename ''/b/audios/b.opus'' = ''b.opus''"
  by (simp add: os_path_basename_def)


lemma resultado_a_ejemplo:
  "fst (procesar_archivo ent_ejemplo (inicializar_trabajador ent_ejemplo) ''/b/audios/a.opus'' fs_ejemplo)
     = Inr (''a.opus'', EXITO, [])"
  by (simp add: procesar_archivo_def Let_def modelo_global_transcribe_def inicializar_trabajador_def
        with_open_w_write_def ent_ejemplo_def basename_a)



lemma resultado_corrupto:
  "fst (procesar_archivo ent_ejemplo (Some modelo_corrupto) ''/b/audios/a.opus'' fs_ejemplo)
     = Inr (''a.opus'', ''FALLO'', replicate 101 CHR ''x'')"
  by (simp add: procesar_archivo_def Let_def modelo_global_transcribe_def modelo_corrupto_def
        except_texto basename_a)

text \<open>
  C10. Every Outcome \<open>procesar_archivo\<close> returns has the status \<open>EXITO\<close> or the status
  \<open>FALLO\<close>; on it the test of the loop, \<open>"FALLO" in status\<close>, and the test of the final
  report, \<open>status == "FALLO"\<close>, give the same answer.
\<close>

theorem procesar_archivo_estado:
  "fst (procesar_archivo ent modelo_global ruta_audio fs) = Inr (nombre_archivo, status, detail) \<longrightarrow>
     (status = EXITO \<or> status = ''FALLO'')
     \<and> (str_in ''FALLO'' status = (status = ''FALLO''))"
proof
  assume "fst (procesar_archivo ent modelo_global ruta_audio fs) = Inr (nombre_archivo, status, detail)"
  then have s: "status = EXITO \<or> status = ''FALLO''" by (rule procesar_Inr_estado)
  then have "str_in ''FALLO'' status = (status = ''FALLO'')"
  proof
    assume "status = EXITO"
    then show ?thesis by (simp add: EXITO_no_FALLO str_in_FALLO_EXITO)
  next
    assume "status = ''FALLO''"
    then show ?thesis by simp
  qed
  with s show "(status = EXITO \<or> status = ''FALLO'')
     \<and> (str_in ''FALLO'' status = (status = ''FALLO''))" ..
qed

theorem procesar_archivo_estado_witness:
  "fst (procesar_archivo ent_ejemplo (inicializar_trabajador ent_ejemplo) ''/b/audios/a.opus'' fs_ejemplo)
     = Inr (''a.opus'', EXITO, [])
   \<and> str_in ''FALLO'' EXITO = (EXITO = ''FALLO'')
   \<and> fst (procesar_archivo ent_ejemplo (Some modelo_corrupto) ''/b/audios/a.opus'' fs_ejemplo)
     = Inr (''a.opus'', ''FALLO'', replicate 101 CHR ''x'')
   \<and> str_in ''FALLO'' ''FALLO'' = (''FALLO'' = ''FALLO'')"
proof -
  have a: "str_in ''FALLO'' EXITO = (EXITO = ''FALLO'')"
    using procesar_archivo_estado[where ent = ent_ejemplo
        and modelo_global = "inicializar_trabajador ent_ejemplo"
        and ruta_audio = "''/b/audios/a.opus''" and fs = fs_ejemplo
        and nombre_archivo = "''a.opus''" and status = EXITO and detail = "[]"]
      resultado_a_ejemplo
    by blast
  have b: "str_in ''FALLO'' ''FALLO'' = (''FALLO'' = ''FALLO'')"
    using procesar_archivo_estado[where ent = ent_ejemplo
        and modelo_global = "Some modelo_corrupto"
        and ruta_audio = "''/b/audios/a.opus''" and fs = fs_ejemplo
        and nombre_archivo = "''a.opus''" and status = "''FALLO''"
        and detail = "replicate 101 CHR ''x''"]
      resultado_corrupto
    by blast
  from a b resultado_a_ejemplo resultado_corrupto show ?thesis by blast
qed

text \<open>
  C2 does not hold as stated: a \<open>KeyboardInterrupt\<close> raised by \<open>transcribe\<close> is not an
  \<open>Exception\<close>, the handler does not take it and it leaves \<open>procesar_archivo\<close>; and an
  \<open>Exception\<close> whose \<open>__str__\<close> raises makes \<open>str(e)\<close> raise inside the handler, and
  that exception leaves \<open>procesar_archivo\<close>.
\<close>

theorem procesar_archivo_propaga:
  "fst (procesar_archivo ent_ejemplo (Some modelo_interrumpido) ''/b/audios/a.opus'' fs_ejemplo)
     = Inl (BaseException ''KeyboardInterrupt'')
   \<and> fst (procesar_archivo ent_ejemplo (Some modelo_sin_str) ''/b/audios/a.opus'' fs_ejemplo)
     = Inl (Exception (Inr ''__str__ returned non-string (type NoneType)''))"
proof -
  have "modelo_global_transcribe (Some modelo_interrumpido) ''/b/audios/a.opus'' IDIOMA_AUDIO
          = Inl (BaseException ''KeyboardInterrupt'')"
    by (simp add: modelo_global_transcribe_def modelo_interrumpido_def)
  then have a: "fst (procesar_archivo ent_ejemplo (Some modelo_interrumpido) ''/b/audios/a.opus'' fs_ejemplo)
     = Inl (BaseException ''KeyboardInterrupt'')"
    by (simp add: procesar_raise_transcribe except_BaseException)
  have "modelo_global_transcribe (Some modelo_sin_str) ''/b/audios/a.opus'' IDIOMA_AUDIO
          = Inl (Exception (Inl (Exception (Inr ''__str__ returned non-string (type NoneType)''))))"
    by (simp add: modelo_global_transcribe_def modelo_sin_str_def)
  then have "fst (procesar_archivo ent_ejemplo (Some modelo_sin_str) ''/b/audios/a.opus'' fs_ejemplo)
     = Inl (Exception (Inr ''__str__ returned non-string (type NoneType)''))"
    by (simp add: procesar_raise_transcribe except_str_raises)
  with a show ?thesis ..
qed

text \<open>
  C2, amended. Let \<open>e\<close> be raised inside \<open>procesar_archivo\<close>: by the transcription call
  (also the \<open>AttributeError\<close> of a model that was not loaded), by opening the output file
  or by writing it. When \<open>e\<close> is an instance of \<open>Exception\<close> and \<open>str(e)\<close> returns a text,
  \<open>procesar_archivo\<close> returns the Outcome with the name of the file, \<open>FALLO\<close> and that
  text. When \<open>e\<close> is not an instance of \<open>Exception\<close>, it leaves \<open>procesar_archivo\<close>.
\<close>

theorem procesar_archivo_captura:
  "(modelo_global_transcribe modelo_global ruta_audio IDIOMA_AUDIO = Inl e
      \<or> (modelo_global_transcribe modelo_global ruta_audio IDIOMA_AUDIO = Inr texto
           \<and> open_w ent (ruta_salida_txt_de_procesar (RUTA_BASE_SCRIPT ent) ruta_audio) = Some e)
      \<or> (modelo_global_transcribe modelo_global ruta_audio IDIOMA_AUDIO = Inr texto
           \<and> open_w ent (ruta_salida_txt_de_procesar (RUTA_BASE_SCRIPT ent) ruta_audio) = None
           \<and> write_texto ent (ruta_salida_txt_de_procesar (RUTA_BASE_SCRIPT ent) ruta_audio) texto
               = Some (e, parcial))
    \<longrightarrow> (e = Exception (Inr str_e) \<longrightarrow>
           fst (procesar_archivo ent modelo_global ruta_audio fs) =
             Inr (os_path_basename ruta_audio, ''FALLO'', str_e))
       \<and> (e = BaseException clase \<longrightarrow>
           fst (procesar_archivo ent modelo_global ruta_audio fs) = Inl e))
   \<and> (\<exists>str_e. fst (procesar_archivo ent None ruta_audio fs) =
                  Inr (os_path_basename ruta_audio, ''FALLO'', str_e))"
proof -
  have r: "fst (procesar_archivo ent modelo_global ruta_audio fs) =
             except_Exception_as_e (os_path_basename ruta_audio) e"
    if "modelo_global_transcribe modelo_global ruta_audio IDIOMA_AUDIO = Inl e
      \<or> (modelo_global_transcribe modelo_global ruta_audio IDIOMA_AUDIO = Inr texto
           \<and> open_w ent (ruta_salida_txt_de_procesar (RUTA_BASE_SCRIPT ent) ruta_audio) = Some e)
      \<or> (modelo_global_transcribe modelo_global ruta_audio IDIOMA_AUDIO = Inr texto
           \<and> open_w ent (ruta_salida_txt_de_procesar (RUTA_BASE_SCRIPT ent) ruta_audio) = None
           \<and> write_texto ent (ruta_salida_txt_de_procesar (RUTA_BASE_SCRIPT ent) ruta_audio) texto
               = Some (e, parcial))"
    using that
  proof (elim disjE conjE)
    assume "modelo_global_transcribe modelo_global ruta_audio IDIOMA_AUDIO = Inl e"
    then show ?thesis by (simp add: procesar_raise_transcribe)
  next
    assume "modelo_global_transcribe modelo_global ruta_audio IDIOMA_AUDIO = Inr texto"
      "open_w ent (ruta_salida_txt_de_procesar (RUTA_BASE_SCRIPT ent) ruta_audio) = Some e"
    then show ?thesis by (simp add: procesar_raise_open)
  next
    assume "modelo_global_transcribe modelo_global ruta_audio IDIOMA_AUDIO = Inr texto"
      "open_w ent (ruta_salida_txt_de_procesar (RUTA_BASE_SCRIPT ent) ruta_audio) = None"
      "write_texto ent (ruta_salida_txt_de_procesar (RUTA_BASE_SCRIPT ent) ruta_audio) texto
               = Some (e, parcial)"
    then show ?thesis by (simp add: procesar_raise_write)
  qed
  have a: "e = Exception (Inr str_e) \<longrightarrow>
           except_Exception_as_e (os_path_basename ruta_audio) e =
             Inr (os_path_basename ruta_audio, ''FALLO'', str_e)"
    by (simp add: except_texto)
  have b: "e = BaseException clase \<longrightarrow>
           except_Exception_as_e (os_path_basename ruta_audio) e = Inl e"
    by (simp add: except_BaseException)
  have "\<exists>str_e. modelo_global_transcribe None ruta_audio IDIOMA_AUDIO = Inl (Exception (Inr str_e))"
    by (simp add: modelo_global_transcribe_def)
  then obtain s where "modelo_global_transcribe None ruta_audio IDIOMA_AUDIO = Inl (Exception (Inr s))" ..
  then have "fst (procesar_archivo ent None ruta_audio fs) =
                  Inr (os_path_basename ruta_audio, ''FALLO'', s)"
    by (simp add: procesar_raise_transcribe except_texto)
  then have c: "\<exists>str_e. fst (procesar_archivo ent None ruta_audio fs) =
                  Inr (os_path_basename ruta_audio, ''FALLO'', str_e)" ..
  from r a b c show ?thesis by metis
qed

lemma transcribe_interrumpido:
  "modelo_global_transcribe (Some modelo_interrumpido) ''/b/audios/a.opus'' IDIOMA_AUDIO
     = Inl (BaseException ''KeyboardInterrupt'')"
  by (simp add: modelo_global_transcribe_def modelo_interrumpido_def)

lemma transcribe_hola:
  "modelo_global_transcribe (inicializar_trabajador ent_solo_lectura) ''/b/audios/a.opus'' IDIOMA_AUDIO
     = Inr ''hola''"
  "modelo_global_transcribe (inicializar_trabajador ent_disco_lleno) ''/b/audios/a.opus'' IDIOMA_AUDIO
     = Inr ''hola''"
  by (simp_all add: modelo_global_transcribe_def inicializar_trabajador_def ent_solo_lectura_def
        ent_disco_lleno_def ent_ejemplo_def)

lemma transcribe_corrupto_a:
  "modelo_global_transcribe (Some modelo_corrupto) ''/b/audios/a.opus'' IDIOMA_AUDIO
     = Inl (Exception (Inr (replicate 101 CHR ''x'')))"
  by (simp add: modelo_global_transcribe_def modelo_corrupto_def)

theorem procesar_archivo_captura_witness:
  "modelo_global_transcribe (Some modelo_corrupto) ''/b/audios/a.opus'' IDIOMA_AUDIO
     = Inl (Exception (Inr (replicate 101 CHR ''x'')))
   \<and> fst (procesar_archivo ent_ejemplo (Some modelo_corrupto) ''/b/audios/a.opus'' fs_ejemplo) =
        Inr (''a.opus'', ''FALLO'', replicate 101 CHR ''x'')
   \<and> modelo_global_transcribe (inicializar_trabajador ent_solo_lectura) ''/b/audios/a.opus'' IDIOMA_AUDIO
     = Inr ''hola''
   \<and> open_w ent_solo_lectura (ruta_salida_txt_de_procesar (RUTA_BASE_SCRIPT ent_solo_lectura)
         ''/b/audios/a.opus'') = Some (Exception (Inr ''Permission denied''))
   \<and> fst (procesar_archivo ent_solo_lectura (inicializar_trabajador ent_solo_lectura)
             ''/b/audios/a.opus'' fs_ejemplo) =
        Inr (''a.opus'', ''FALLO'', ''Permission denied'')
   \<and> modelo_global_transcribe (inicializar_trabajador ent_disco_lleno) ''/b/audios/a.opus'' IDIOMA_AUDIO
     = Inr ''hola''
   \<and> open_w ent_disco_lleno (ruta_salida_txt_de_procesar (RUTA_BASE_SCRIPT ent_disco_lleno)
         ''/b/audios/a.opus'') = None
   \<and> write_texto ent_disco_lleno (ruta_salida_txt_de_procesar (RUTA_BASE_SCRIPT ent_disco_lleno)
         ''/b/audios/a.opus'') ''hola'' = Some (Exception (Inr ''No space left on device''), [])
   \<and> fst (procesar_archivo ent_disco_lleno (inicializar_trabajador ent_disco_lleno)
             ''/b/audios/a.opus'' fs_ejemplo) =
        Inr (''a.opus'', ''FALLO'', ''No space left on device'')
   \<and> modelo_global_transcribe (Some modelo_interrumpido) ''/b/audios/a.opus'' IDIOMA_AUDIO
     = Inl (BaseException ''KeyboardInterrupt'')
   \<and> fst (procesar_archivo ent_ejemplo (Some modelo_interrumpido) ''/b/audios/a.opus'' fs_ejemplo)
     = Inl (BaseException ''KeyboardInterrupt'')"
proof -
  have b: "fst (procesar_archivo ent_ejemplo (Some modelo_corrupto) ''/b/audios/a.opus'' fs_ejemplo) =
        Inr (''a.opus'', ''FALLO'', replicate 101 CHR ''x'')"
    using procesar_archivo_captura[where modelo_global = "Some modelo_corrupto"
        and ent = ent_ejemplo and ruta_audio = "''/b/audios/a.opus''" and fs = fs_ejemplo
        and e = "Exception (Inr (replicate 101 CHR ''x''))" and str_e = "replicate 101 CHR ''x''"]
      transcribe_corrupto_a
    by (simp add: basename_a)
  have hc: "open_w ent_solo_lectura (ruta_salida_txt_de_procesar (RUTA_BASE_SCRIPT ent_solo_lectura)
         ''/b/audios/a.opus'') = Some (Exception (Inr ''Permission denied''))"
    by (simp add: ent_solo_lectura_def)
  have c: "fst (procesar_archivo ent_solo_lectura (inicializar_trabajador ent_solo_lectura)
             ''/b/audios/a.opus'' fs_ejemplo) =
        Inr (''a.opus'', ''FALLO'', ''Permission denied'')"
    using procesar_archivo_captura[where modelo_global = "inicializar_trabajador ent_solo_lectura"
        and ent = ent_solo_lectura and ruta_audio = "''/b/audios/a.opus''" and fs = fs_ejemplo
        and e = "Exception (Inr ''Permission denied'')" and texto = "''hola''"
        and str_e = "''Permission denied''"] hc transcribe_hola(1)
    by (simp add: basename_a)
  have hd1: "open_w ent_disco_lleno (ruta_salida_txt_de_procesar (RUTA_BASE_SCRIPT ent_disco_lleno)
         ''/b/audios/a.opus'') = None"
    by (simp add: ent_disco_lleno_def ent_ejemplo_def)
  have hd2: "write_texto ent_disco_lleno (ruta_salida_txt_de_procesar (RUTA_BASE_SCRIPT ent_disco_lleno)
         ''/b/audios/a.opus'') ''hola'' = Some (Exception (Inr ''No space left on device''), [])"
    by (simp add: ent_disco_lleno_def)
  have d: "fst (procesar_archivo ent_disco_lleno (inicializar_trabajador ent_disco_lleno)
             ''/b/audios/a.opus'' fs_ejemplo) =
        Inr (''a.opus'', ''FALLO'', ''No space left on device'')"
    using procesar_archivo_captura[where modelo_global = "inicializar_trabajador ent_disco_lleno"
        and ent = ent_disco_lleno and ruta_audio = "''/b/audios/a.opus''" and fs = fs_ejemplo
        and e = "Exception (Inr ''No space left on device'')" and texto = "''hola''"
        and parcial = "[]" and str_e = "''No space left on device''"]
      hd1 hd2 transcribe_hola(2)
    by (simp add: basename_a)
  have k: "fst (procesar_archivo ent_ejemplo (Some modelo_interrumpido) ''/b/audios/a.opus'' fs_ejemplo)
     = Inl (BaseException ''KeyboardInterrupt'')"
    using procesar_archivo_captura[where modelo_global = "Some modelo_interrumpido"
        and ent = ent_ejemplo and ruta_audio = "''/b/audios/a.opus''" and fs = fs_ejemplo
        and e = "BaseException ''KeyboardInterrupt''" and clase = "''KeyboardInterrupt''"]
      transcribe_interrumpido
    by simp
  from transcribe_corrupto_a b transcribe_hola hc c hd1 hd2 d transcribe_interrumpido k
  show ?thesis by blast
qed

section \<open>Error details\<close>














section \<open>The pool\<close>



















section \<open>Output paths\<close>

lemma procesar_es_encontrar:
  "ruta_salida_txt_de_procesar base ruta_audio =
   ruta_salida_txt_de_encontrar base (os_path_basename ruta_audio)"
  by (simp add: ruta_salida_txt_de_procesar_def ruta_salida_txt_de_encontrar_def Let_def)

lemma no_solo_puntos_opus: "\<not> solo_puntos (x @ ''.opus'')"
  by (simp add: solo_puntos_def)

lemma raiz_inicio:
  "CHR ''/'' \<notin> set r \<Longrightarrow> take 1 ((if solo_puntos r then r @ ''.opus'' else r) @ ''.txt'') \<noteq> ''/''"
  by (cases r) auto

lemma salida_opus:
  assumes "CHR ''/'' \<notin> set r"
  shows "ruta_salida_txt_de_encontrar base (r @ ''.opus'') =
         os_path_join (CARPETA_TRANSCRIPCIONES base)
           ((if solo_puntos r then r @ ''.opus'' else r) @ ''.txt'')"
  unfolding ruta_salida_txt_de_encontrar_def splitext_opus[OF assms] ..

lemma salida_eq_iff:
  assumes "CHR ''/'' \<notin> set ra" and "CHR ''/'' \<notin> set rb" and "ra \<noteq> rb"
  shows "ruta_salida_txt_de_encontrar base (ra @ ''.opus'')
           = ruta_salida_txt_de_encontrar base (rb @ ''.opus'')
         \<longleftrightarrow> (solo_puntos ra \<and> rb = ra @ ''.opus'') \<or> (solo_puntos rb \<and> ra = rb @ ''.opus'')"
proof -
  let ?ra = "if solo_puntos ra then ra @ ''.opus'' else ra"
  let ?rb = "if solo_puntos rb then rb @ ''.opus'' else rb"
  have "ruta_salida_txt_de_encontrar base (ra @ ''.opus'')
           = ruta_salida_txt_de_encontrar base (rb @ ''.opus'')
        \<longleftrightarrow> ?ra @ ''.txt'' = ?rb @ ''.txt''"
    unfolding salida_opus[OF assms(1)] salida_opus[OF assms(2)]
    using raiz_inicio[OF assms(1)] raiz_inicio[OF assms(2)] by (rule os_path_join_eq_iff)
  also have "\<dots> \<longleftrightarrow> ?ra = ?rb" by simp
  also have "\<dots> \<longleftrightarrow> (solo_puntos ra \<and> rb = ra @ ''.opus'') \<or> (solo_puntos rb \<and> ra = rb @ ''.opus'')"
  proof (cases "solo_puntos ra")
    case True
    note a = True
    show ?thesis
    proof (cases "solo_puntos rb")
      case True
      have "rb \<noteq> ra @ ''.opus''" using True no_solo_puntos_opus by blast
      moreover have "ra \<noteq> rb @ ''.opus''" using a no_solo_puntos_opus by blast
      ultimately show ?thesis using a True assms(3) by simp
    next
      case False
      then show ?thesis using a by auto
    qed
  next
    case False
    note a = False
    show ?thesis
    proof (cases "solo_puntos rb")
      case True
      then show ?thesis using a by auto
    next
      case False
      then show ?thesis using a assms(3) by simp
    qed
  qed
  finally show ?thesis .
qed

lemma raiz_entera_iff:
  "CHR ''/'' \<notin> set r \<Longrightarrow> fst (os_path_splitext (r @ ''.opus'')) = r @ ''.opus'' \<longleftrightarrow> solo_puntos r"
  by (simp add: splitext_opus)

lemma descubierto:
  assumes "directorios (disco w) (CARPETA_AUDIOS (RUTA_BASE_SCRIPT ent)) = Some I"
    and "\<forall>n\<in>set I. CHR ''/'' \<notin> set n"
    and "fst (encontrar_archivos_pendientes ent w) = Some items"
    and "a \<in> set items"
  obtains r where "a = os_path_join (CARPETA_AUDIOS (RUTA_BASE_SCRIPT ent)) (r @ ''.opus'')"
    and "CHR ''/'' \<notin> set r"
    and "os_path_basename a = r @ ''.opus''"
    and "\<not> os_path_exists (disco w) (ruta_salida_txt_de_encontrar (RUTA_BASE_SCRIPT ent) (r @ ''.opus''))"
proof -
  let ?P = "\<lambda>n. endswith n ''.opus'' \<and>
                  \<not> os_path_exists (disco w) (ruta_salida_txt_de_encontrar (RUTA_BASE_SCRIPT ent) n)"
  have "items = map (os_path_join (CARPETA_AUDIOS (RUTA_BASE_SCRIPT ent))) (filter ?P (sort I))"
    using encontrar_Some(1)[OF assms(1)] assms(3) by simp
  then obtain n where n: "n \<in> set I" "?P n" "a = os_path_join (CARPETA_AUDIOS (RUTA_BASE_SCRIPT ent)) n"
    using assms(4) by auto
  from n(2) obtain r where r: "n = r @ ''.opus''" unfolding endswith_iff by blast
  have s: "CHR ''/'' \<notin> set n" using assms(2) n(1) by blast
  have 1: "a = os_path_join (CARPETA_AUDIOS (RUTA_BASE_SCRIPT ent)) (r @ ''.opus'')"
    using n(3) r by simp
  have 2: "CHR ''/'' \<notin> set r" using s r by simp
  have "os_path_basename (os_path_join (CARPETA_AUDIOS (RUTA_BASE_SCRIPT ent)) n) = n"
    using s by (rule os_path_basename_join)
  then have 3: "os_path_basename a = r @ ''.opus''" using n(3) r by simp
  have 4: "\<not> os_path_exists (disco w)
      (ruta_salida_txt_de_encontrar (RUTA_BASE_SCRIPT ent) (r @ ''.opus''))"
    using n(2) r by simp
  from 1 2 3 4 show ?thesis by (rule that)
qed

lemma sin_barra_ejemplo:
  "\<forall>n\<in>set [''b.opus'', ''a.opus'', ''nota.txt'', ''c.opus'']. CHR ''/'' \<notin> set n"
  by simp

lemma splitext_punto_opus:
  "os_path_splitext ''.opus'' = (''.opus'', [])"
  "os_path_splitext ''.opus.opus'' = (''.opus'', ''.opus'')"
  by (simp_all add: os_path_splitext_def splitext_loop.simps)

lemma h_choque:
  "directorios (disco w_choque) (CARPETA_AUDIOS (RUTA_BASE_SCRIPT ent_ejemplo)) =
     Some [''.opus.opus'', ''.opus'']"
  by (simp add: w_choque_def fs_choque_def ent_ejemplo_def audios_ejemplo)

lemma encontrar_choque:
  "fst (encontrar_archivos_pendientes ent_ejemplo w_choque)
     = Some [''/b/audios/.opus'', ''/b/audios/.opus.opus'']"
  by (subst encontrar_Some(1)[OF h_choque])
     (simp add: ent_ejemplo_def w_choque_def fs_choque_def
       audios_ejemplo transcripciones_ejemplo ruta_salida_txt_de_encontrar_def splitext_punto_opus
       endswith_def os_path_exists_def os_path_join_def)

lemma basename_choque:
  "os_path_basename ''/b/audios/.opus'' = ''.opus''"
  "os_path_basename ''/b/audios/.opus.opus'' = ''.opus.opus''"
  by (simp_all add: os_path_basename_def)




text \<open>
  C8 does not hold as stated: with the entries \<open>.opus\<close> and \<open>.opus.opus\<close> in the audio
  folder, discovery returns both, and \<open>procesar_archivo\<close> writes both to the same path,
  because \<open>splitext\<close> finds no extension in \<open>.opus\<close>.
\<close>

theorem salidas_que_chocan:
  "fst (encontrar_archivos_pendientes ent_ejemplo w_choque)
     = Some [''/b/audios/.opus'', ''/b/audios/.opus.opus'']
   \<and> ''/b/audios/.opus'' \<noteq> ''/b/audios/.opus.opus''
   \<and> ruta_salida_txt_de_procesar (RUTA_BASE_SCRIPT ent_ejemplo) ''/b/audios/.opus''
       = ''/b/transcripciones/.opus.txt''
   \<and> ruta_salida_txt_de_procesar (RUTA_BASE_SCRIPT ent_ejemplo) ''/b/audios/.opus.opus''
       = ''/b/transcripciones/.opus.txt''"
  by (simp add: encontrar_choque ruta_salida_txt_de_procesar_def basename_choque
        splitext_punto_opus base_ejemplo transcripciones_ejemplo os_path_join_def endswith_def)


text \<open>
  C8, amended. Two different paths returned by one discovery (over entries without \<open>/\<close>)
  have the same output path exactly when \<open>splitext\<close> leaves the name of one of them
  whole (a name of dots followed by \<open>.opus\<close>) and the name of the other is that name
  followed by \<open>.opus\<close>; all other pairs have different output paths.
\<close>

theorem salidas_distintas_salvo_puntos:
  assumes "directorios (disco w) (CARPETA_AUDIOS (RUTA_BASE_SCRIPT ent)) = Some I"
    and "\<forall>n\<in>set I. CHR ''/'' \<notin> set n"
    and "fst (encontrar_archivos_pendientes ent w) = Some items"
    and "a \<in> set items" and "b \<in> set items" and "a \<noteq> b"
  shows "ruta_salida_txt_de_procesar (RUTA_BASE_SCRIPT ent) a
           = ruta_salida_txt_de_procesar (RUTA_BASE_SCRIPT ent) b
         \<longleftrightarrow> (fst (os_path_splitext (os_path_basename a)) = os_path_basename a
                \<and> os_path_basename b = os_path_basename a @ ''.opus'')
             \<or> (fst (os_path_splitext (os_path_basename b)) = os_path_basename b
                \<and> os_path_basename a = os_path_basename b @ ''.opus'')"
proof -
  obtain ra where ra: "a = os_path_join (CARPETA_AUDIOS (RUTA_BASE_SCRIPT ent)) (ra @ ''.opus'')"
    "CHR ''/'' \<notin> set ra" "os_path_basename a = ra @ ''.opus''"
    using descubierto[OF assms(1,2,3,4)] by metis
  obtain rb where rb: "b = os_path_join (CARPETA_AUDIOS (RUTA_BASE_SCRIPT ent)) (rb @ ''.opus'')"
    "CHR ''/'' \<notin> set rb" "os_path_basename b = rb @ ''.opus''"
    using descubierto[OF assms(1,2,3,5)] by metis
  have ne: "ra \<noteq> rb" using assms(6) ra(1) rb(1) by blast
  have "ruta_salida_txt_de_procesar (RUTA_BASE_SCRIPT ent) a
           = ruta_salida_txt_de_procesar (RUTA_BASE_SCRIPT ent) b
        \<longleftrightarrow> (solo_puntos ra \<and> rb = ra @ ''.opus'') \<or> (solo_puntos rb \<and> ra = rb @ ''.opus'')"
    unfolding procesar_es_encontrar ra(3) rb(3) using ra(2) rb(2) ne by (rule salida_eq_iff)
  then show ?thesis
    unfolding ra(3) rb(3) raiz_entera_iff[OF ra(2)] raiz_entera_iff[OF rb(2)] by simp
qed

theorem salidas_distintas_salvo_puntos_witness:
  "directorios (disco w_ejemplo) (CARPETA_AUDIOS (RUTA_BASE_SCRIPT ent_ejemplo)) =
     Some [''b.opus'', ''a.opus'', ''nota.txt'', ''c.opus'']
   \<and> CHR ''/'' \<notin> set ''b.opus'' \<and> CHR ''/'' \<notin> set ''a.opus''
   \<and> CHR ''/'' \<notin> set ''nota.txt'' \<and> CHR ''/'' \<notin> set ''c.opus''
   \<and> fst (encontrar_archivos_pendientes ent_ejemplo w_ejemplo)
        = Some [''/b/audios/a.opus'', ''/b/audios/b.opus'']
   \<and> ''/b/audios/a.opus'' \<in> set [''/b/audios/a.opus'', ''/b/audios/b.opus'']
   \<and> ''/b/audios/b.opus'' \<in> set [''/b/audios/a.opus'', ''/b/audios/b.opus'']
   \<and> ''/b/audios/a.opus'' \<noteq> ''/b/audios/b.opus''
   \<and> os_path_basename ''/b/audios/b.opus'' \<noteq> os_path_basename ''/b/audios/a.opus'' @ ''.opus''
   \<and> os_path_basename ''/b/audios/a.opus'' \<noteq> os_path_basename ''/b/audios/b.opus'' @ ''.opus''
   \<and> ruta_salida_txt_de_procesar (RUTA_BASE_SCRIPT ent_ejemplo) ''/b/audios/a.opus''
        \<noteq> ruta_salida_txt_de_procesar (RUTA_BASE_SCRIPT ent_ejemplo) ''/b/audios/b.opus''"
proof -
  have m: "''/b/audios/a.opus'' \<in> set [''/b/audios/a.opus'', ''/b/audios/b.opus'']"
    "''/b/audios/b.opus'' \<in> set [''/b/audios/a.opus'', ''/b/audios/b.opus'']"
    "''/b/audios/a.opus'' \<noteq> ''/b/audios/b.opus''"
    by simp_all
  have n: "os_path_basename ''/b/audios/b.opus'' \<noteq> os_path_basename ''/b/audios/a.opus'' @ ''.opus''"
    "os_path_basename ''/b/audios/a.opus'' \<noteq> os_path_basename ''/b/audios/b.opus'' @ ''.opus''"
    by (simp_all add: basename_a basename_b)
  have "ruta_salida_txt_de_procesar (RUTA_BASE_SCRIPT ent_ejemplo) ''/b/audios/a.opus''
        \<noteq> ruta_salida_txt_de_procesar (RUTA_BASE_SCRIPT ent_ejemplo) ''/b/audios/b.opus''"
    using salidas_distintas_salvo_puntos[OF h_ejemplo sin_barra_ejemplo encontrar_ejemplo m] n
    by blast
  with m n h_ejemplo encontrar_ejemplo show ?thesis by simp
qed




end
